theory Spec2Isabelle
  imports Complex_Main
begin

section \<open>JavaScript numbers\<close>

text \<open>
  A JavaScript number is modelled as a real number or one of the three special values of
  IEEE-754 arithmetic. The finite doubles are idealised as the reals: rounding, overflow
  and the sign of zero are left out (a zero divisor is read as \<open>+0\<close>). The special
  values follow the IEEE rules, so that a division by zero is visible in the model as
  \<open>NaN\<close> or an infinity, where HOL's own division would return \<open>0\<close>. A property
  that is \<open>undefined\<close> converts to \<open>NaN\<close> in every arithmetic operation, so a
  missing field of a body is read as \<open>NaN\<close>.
\<close>

datatype jsnum = Fin real | PInf | NInf | NaN

text \<open>
  \<open>Number.isFinite\<close>, and the real value of a finite number (\<open>0\<close> for the special
  values; the theorems that use it ask for finite numbers).
\<close>

fun is_fin :: "jsnum \<Rightarrow> bool" where
  "is_fin (Fin a) = True"
| "is_fin PInf = False"
| "is_fin NInf = False"
| "is_fin NaN = False"

fun num_of :: "jsnum \<Rightarrow> real" where
  "num_of (Fin a) = a"
| "num_of PInf = 0"
| "num_of NInf = 0"
| "num_of NaN = 0"

instantiation jsnum :: "{plus, minus, uminus, times, inverse}"
begin

fun plus_jsnum :: "jsnum \<Rightarrow> jsnum \<Rightarrow> jsnum" where
  "plus_jsnum NaN b = NaN"
| "plus_jsnum a NaN = NaN"
| "plus_jsnum (Fin a) (Fin b) = Fin (a + b)"
| "plus_jsnum PInf NInf = NaN"
| "plus_jsnum NInf PInf = NaN"
| "plus_jsnum PInf b = PInf"
| "plus_jsnum a PInf = PInf"
| "plus_jsnum NInf b = NInf"
| "plus_jsnum a NInf = NInf"

fun uminus_jsnum :: "jsnum \<Rightarrow> jsnum" where
  "uminus_jsnum (Fin a) = Fin (- a)"
| "uminus_jsnum PInf = NInf"
| "uminus_jsnum NInf = PInf"
| "uminus_jsnum NaN = NaN"

definition minus_jsnum :: "jsnum \<Rightarrow> jsnum \<Rightarrow> jsnum" where
  "minus_jsnum a b = a + (- b)"

fun times_jsnum :: "jsnum \<Rightarrow> jsnum \<Rightarrow> jsnum" where
  "times_jsnum NaN b = NaN"
| "times_jsnum a NaN = NaN"
| "times_jsnum (Fin a) (Fin b) = Fin (a * b)"
| "times_jsnum PInf (Fin b) = (if b = 0 then NaN else if 0 < b then PInf else NInf)"
| "times_jsnum NInf (Fin b) = (if b = 0 then NaN else if 0 < b then NInf else PInf)"
| "times_jsnum (Fin a) PInf = (if a = 0 then NaN else if 0 < a then PInf else NInf)"
| "times_jsnum (Fin a) NInf = (if a = 0 then NaN else if 0 < a then NInf else PInf)"
| "times_jsnum PInf PInf = PInf"
| "times_jsnum PInf NInf = NInf"
| "times_jsnum NInf PInf = NInf"
| "times_jsnum NInf NInf = PInf"

fun divide_jsnum :: "jsnum \<Rightarrow> jsnum \<Rightarrow> jsnum" where
  "divide_jsnum NaN b = NaN"
| "divide_jsnum a NaN = NaN"
| "divide_jsnum (Fin a) (Fin b) =
     (if b = 0 then (if a = 0 then NaN else if 0 < a then PInf else NInf)
      else Fin (a / b))"
| "divide_jsnum (Fin a) PInf = Fin 0"
| "divide_jsnum (Fin a) NInf = Fin 0"
| "divide_jsnum PInf (Fin b) = (if 0 \<le> b then PInf else NInf)"
| "divide_jsnum NInf (Fin b) = (if 0 \<le> b then NInf else PInf)"
| "divide_jsnum PInf b = NaN"
| "divide_jsnum NInf b = NaN"

definition inverse_jsnum :: "jsnum \<Rightarrow> jsnum" where
  "inverse_jsnum a = divide (Fin 1) a"

instance ..

end

text \<open>\<open>Math.sqrt\<close>.\<close>

fun js_sqrt :: "jsnum \<Rightarrow> jsnum" where
  "js_sqrt (Fin a) = (if a < 0 then NaN else Fin (sqrt a))"
| "js_sqrt PInf = PInf"
| "js_sqrt NInf = NaN"
| "js_sqrt NaN = NaN"

text \<open>The comparison \<open><\<close>: false whenever an operand is \<open>NaN\<close>.\<close>

fun js_less :: "jsnum \<Rightarrow> jsnum \<Rightarrow> bool" where
  "js_less NaN b = False"
| "js_less a NaN = False"
| "js_less (Fin a) (Fin b) = (a < b)"
| "js_less NInf NInf = False"
| "js_less NInf b = True"
| "js_less a NInf = False"
| "js_less PInf b = False"
| "js_less a PInf = True"

section \<open>The gravity variant: \<open>simulate\<close> of server.js\<close>

text \<open>
  A body object \<open>{mass, x, y, vx, vy}\<close> and a two-dimensional vector \<open>{x, y}\<close>
  (an entry of \<open>forces\<close>, or of a snapshot).
\<close>

record body =
  b_mass :: jsnum
  b_x :: jsnum
  b_y :: jsnum
  b_vx :: jsnum
  b_vy :: jsnum

record vec =
  v_x :: jsnum
  v_y :: jsnum

text \<open>
  Body objects live in a store: a reference is an index into the list of all objects
  allocated so far, and allocation appends. An array of bodies is a list of references,
  so that two arrays, or two entries of one array, may share an object. The arrays
  \<open>forces\<close> and \<open>trajectories\<close> and the snapshots are created inside \<open>simulate\<close>
  and never shared while they are written, so they are plain lists of values.
\<close>

type_synonym ref = nat
type_synonym heap = "body list"
type_synonym trajectory = "vec list list"

text \<open>
  What a call can throw: the \<open>TypeError\<close> of the language, raised when a property of
  \<open>null\<close> or \<open>undefined\<close> is read, and the three error kinds of the specification.
  The source of \<open>simulate\<close> has no \<open>throw\<close> statement, so no branch of the model
  returns one of the three.
\<close>

datatype sim_error = TypeError | ValidationError | DomainError | ResourceLimitError

text \<open>
  An entry of the array \<open>bodies\<close> is a reference to an object, or \<open>None\<close> for
  \<open>null\<close> and \<open>undefined\<close>. (A number or a string as entry has no fields and
  reads like an object all of whose fields are missing.)
\<close>

type_synonym entry = "ref option"

definition G :: jsnum where
  "G = Fin 1"

text \<open>The softening term added to the squared distance (\<open>1e-8\<close>).\<close>

definition SOFTENING :: real where
  "SOFTENING = 1 / 10 ^ 8"

text \<open>Lines 56 to 58: the squared distance used as the denominator of the force law.\<close>

definition grav_distSq :: "body \<Rightarrow> body \<Rightarrow> jsnum" where
  "grav_distSq bi bj =
     (let dx = b_x bj - b_x bi;
          dy = b_y bj - b_y bi
      in dx * dx + dy * dy + Fin SOFTENING)"

text \<open>Lines 56 to 63: the force \<open>(fx, fy)\<close> of the pair, as applied to the first body.\<close>

definition pair_force :: "body \<Rightarrow> body \<Rightarrow> vec" where
  "pair_force bi bj =
     (let dx = b_x bj - b_x bi;
          dy = b_y bj - b_y bi;
          distSq = grav_distSq bi bj;
          dist = js_sqrt distSq;
          forceMag = (G * b_mass bi * b_mass bj) / distSq;
          fx = forceMag * (dx / dist);
          fy = forceMag * (dy / dist)
      in \<lparr>v_x = fx, v_y = fy\<rparr>)"

text \<open>Lines 64 to 67: the body of the inner loop, for the pair \<open>(i, j)\<close>.\<close>

definition add_pair :: "heap \<Rightarrow> ref list \<Rightarrow> nat \<Rightarrow> nat \<Rightarrow> vec list \<Rightarrow> vec list" where
  "add_pair h state i j forces =
     (let f = pair_force (h ! (state ! i)) (h ! (state ! j));
          forces1 = forces[i := \<lparr>v_x = v_x (forces ! i) + v_x f,
                                 v_y = v_y (forces ! i) + v_y f\<rparr>]
      in forces1[j := \<lparr>v_x = v_x (forces1 ! j) - v_x f,
                       v_y = v_y (forces1 ! j) - v_y f\<rparr>])"

text \<open>Lines 53 to 69: the accumulators start at zero; every pair \<open>i < j\<close> is visited once.\<close>

definition compute_forces :: "heap \<Rightarrow> ref list \<Rightarrow> vec list" where
  "compute_forces h state =
     fold (\<lambda>i forces. fold (\<lambda>j forces'. add_pair h state i j forces')
                            [i + 1 ..< length state] forces)
          [0 ..< length state]
          (map (\<lambda>_. \<lparr>v_x = Fin 0, v_y = Fin 0\<rparr>) state)"

text \<open>
  Lines 72 to 77: the new field values of one body, from its accumulated force \<open>f\<close>
  and the two numbers \<open>r1\<close>, \<open>r2\<close> that \<open>Math.random()\<close> returns for it.
  The velocity is updated first and the position uses the new velocity; \<open>mass\<close> is
  not assigned.
\<close>

definition advance :: "vec \<Rightarrow> jsnum \<Rightarrow> jsnum \<Rightarrow> real \<Rightarrow> real \<Rightarrow> body \<Rightarrow> body" where
  "advance f dt jitter r1 r2 b =
     (let ax = v_x f / b_mass b;
          ay = v_y f / b_mass b;
          vx' = b_vx b + ax * dt;
          vy' = b_vy b + ay * dt;
          x' = b_x b + (vx' * dt + (Fin r1 - Fin (1 / 2)) * jitter);
          y' = b_y b + (vy' * dt + (Fin r2 - Fin (1 / 2)) * jitter)
      in b\<lparr>b_vx := vx', b_vy := vy', b_x := x', b_y := y'\<rparr>)"

text \<open>
  Lines 71 to 78: the body of the integration loop writes the object \<open>state[i]\<close>.
  \<open>Math.random()\<close> is a sequence \<open>rnd\<close> of reals and a counter \<open>k\<close> of the
  draws made so far; each body takes two draws, the first for \<open>x\<close>.
\<close>

definition integrate_body ::
  "vec list \<Rightarrow> ref list \<Rightarrow> jsnum \<Rightarrow> jsnum \<Rightarrow> (nat \<Rightarrow> real) \<Rightarrow> nat \<Rightarrow> heap \<times> nat \<Rightarrow> heap \<times> nat" where
  "integrate_body forces state dt jitter rnd i = (\<lambda>(h, k).
     let r = state ! i
     in (h[r := advance (forces ! i) dt jitter (rnd k) (rnd (k + 1)) (h ! r)], k + 2))"

text \<open>Line 80: the snapshot of the positions.\<close>

definition snapshot :: "heap \<Rightarrow> ref list \<Rightarrow> vec list" where
  "snapshot h state = map (\<lambda>r. \<lparr>v_x = b_x (h ! r), v_y = b_y (h ! r)\<rparr>) state"

text \<open>Lines 52 to 78: the forces and the integration of one step.\<close>

definition sim_step ::
  "ref list \<Rightarrow> jsnum \<Rightarrow> jsnum \<Rightarrow> (nat \<Rightarrow> real) \<Rightarrow> heap \<times> nat \<Rightarrow> heap \<times> nat" where
  "sim_step state dt jitter rnd = (\<lambda>(h, k).
     let forces = compute_forces h state
     in fold (integrate_body forces state dt jitter rnd) [0 ..< length state] (h, k))"

text \<open>
  Lines 51 to 82: the loop over the steps runs while the counter is below \<open>steps\<close>.
  It makes no iteration when \<open>steps\<close> is negative, zero or \<open>NaN\<close>, and it does not
  end when \<open>steps\<close> is \<open>Infinity\<close>: then the result is \<open>None\<close>.
\<close>

partial_function (option) sim_loop ::
  "ref list \<Rightarrow> jsnum \<Rightarrow> jsnum \<Rightarrow> jsnum \<Rightarrow> (nat \<Rightarrow> real) \<Rightarrow> nat \<Rightarrow> heap \<times> nat \<Rightarrow> trajectory
     \<Rightarrow> (heap \<times> trajectory) option" where
  "sim_loop state dt steps jitter rnd step hk trajectories =
     (if js_less (Fin (real step)) steps then
        sim_loop state dt steps jitter rnd (step + 1) (sim_step state dt jitter rnd hk)
          (trajectories @ [snapshot (fst (sim_step state dt jitter rnd hk)) state])
      else Some (fst hk, trajectories))"

text \<open>
  Lines 43 to 49: the copy, entry by entry. Reading \<open>b.mass\<close> of an entry that is no
  object throws a \<open>TypeError\<close>, before any other work. A reference outside the store
  does not occur in a program; the model answers it in the same way.
\<close>

fun copy_bodies :: "heap \<Rightarrow> entry list \<Rightarrow> sim_error + body list" where
  "copy_bodies h [] = Inr []"
| "copy_bodies h (None # bodies) = Inl TypeError"
| "copy_bodies h (Some r # bodies) =
     (if r < length h then
        (case copy_bodies h bodies of
           Inl e \<Rightarrow> Inl e
         | Inr copies \<Rightarrow>
             Inr (\<lparr>b_mass = b_mass (h ! r), b_x = b_x (h ! r), b_y = b_y (h ! r),
                   b_vx = b_vx (h ! r), b_vy = b_vy (h ! r)\<rparr> # copies))
      else Inl TypeError)"

text \<open>
  Lines 41 to 83. The copy allocates one new object for every entry of \<open>bodies\<close>;
  \<open>state\<close> is the array of the new references. A call that returns gives the store
  after the call and the array of snapshots; a call that throws gives the error; a call
  that does not end gives \<open>None\<close>. The argument \<open>bodies\<close> is an array: a call with
  another value throws a \<open>TypeError\<close> at line 43 and is left out by the type. The
  bounds that an engine puts on the length of an array and on memory are not modelled.
\<close>

definition simulate ::
  "heap \<Rightarrow> entry list \<Rightarrow> jsnum \<Rightarrow> jsnum \<Rightarrow> jsnum \<Rightarrow> (nat \<Rightarrow> real)
     \<Rightarrow> (sim_error + heap \<times> trajectory) option" where
  "simulate h bodies dt steps jitter rnd =
     (case copy_bodies h bodies of
        Inl e \<Rightarrow> Some (Inl e)
      | Inr copies \<Rightarrow>
          (let state = [length h ..< length h + length copies]
           in map_option Inr (sim_loop state dt steps jitter rnd 0 (h @ copies, 0) [])))"

text \<open>A source of random numbers that returns the same number at every draw.\<close>

definition const_rnd :: "real \<Rightarrow> nat \<Rightarrow> real" where
  "const_rnd c k = c"

section \<open>The Coulomb variant: the force pass of \<open>draw\<close> in quantum_sim.js\<close>

text \<open>
  The particles of the interactive variant hold p5.js vectors. Their coordinates are
  finite numbers, and every divisor of this pass is at least \<open>5\<close> (the square root
  of \<open>MIN_DIST_SQ\<close>) or at least \<open>25\<close>, so the pass is modelled over the reals.
  \<open>p5.Vector.sub\<close>, \<open>magSq\<close>, \<open>div\<close>, \<open>mult\<close> and \<open>add\<close> are the
  componentwise operations of the library. The global array \<open>particles\<close> holds one
  object per entry, created in \<open>setup\<close>, so it is a list of values updated by index.
  Rendering and the method \<open>update\<close> are not part of the pass.
\<close>

record p5vec =
  p_x :: real
  p_y :: real

record particle =
  pos :: p5vec
  vel :: p5vec
  acc :: p5vec
  charge :: real

definition COULOMB_CONSTANT :: real where
  "COULOMB_CONSTANT = 500"

definition MIN_DIST_SQ :: real where
  "MIN_DIST_SQ = 25"

definition vec_sub :: "p5vec \<Rightarrow> p5vec \<Rightarrow> p5vec" where
  "vec_sub a b = \<lparr>p_x = p_x a - p_x b, p_y = p_y a - p_y b\<rparr>"

definition vec_add :: "p5vec \<Rightarrow> p5vec \<Rightarrow> p5vec" where
  "vec_add a b = \<lparr>p_x = p_x a + p_x b, p_y = p_y a + p_y b\<rparr>"

definition vec_mult :: "p5vec \<Rightarrow> real \<Rightarrow> p5vec" where
  "vec_mult a n = \<lparr>p_x = p_x a * n, p_y = p_y a * n\<rparr>"

definition vec_div :: "p5vec \<Rightarrow> real \<Rightarrow> p5vec" where
  "vec_div a n = \<lparr>p_x = p_x a / n, p_y = p_y a / n\<rparr>"

definition magSq :: "p5vec \<Rightarrow> real" where
  "magSq a = p_x a * p_x a + p_y a * p_y a"

text \<open>Lines 43 to 45 and 49 to 51 of quantum_sim.js.\<close>

definition resetForce :: "particle \<Rightarrow> particle" where
  "resetForce p = p\<lparr>acc := \<lparr>p_x = 0, p_y = 0\<rparr>\<rparr>"

definition applyForce :: "particle \<Rightarrow> p5vec \<Rightarrow> particle" where
  "applyForce p force = p\<lparr>acc := vec_add (acc p) force\<rparr>"

text \<open>Lines 121 and 122: the squared distance used as the denominator.\<close>

definition coulomb_distSq :: "particle \<Rightarrow> particle \<Rightarrow> real" where
  "coulomb_distSq p1 p2 =
     (let direction = vec_sub (pos p2) (pos p1)
      in max (magSq direction) MIN_DIST_SQ)"

text \<open>Lines 121 to 129: the vector \<open>force\<close> of the pair.\<close>

definition coulomb_force :: "particle \<Rightarrow> particle \<Rightarrow> p5vec" where
  "coulomb_force p1 p2 =
     (let direction = vec_sub (pos p2) (pos p1);
          distSq = coulomb_distSq p1 p2;
          dist = sqrt distSq;
          forceDir = vec_div direction dist;
          forceMag = (COULOMB_CONSTANT * charge p1 * charge p2) / distSq
      in vec_mult forceDir forceMag)"

text \<open>Lines 118 to 132: the body of the inner loop, for the pair \<open>(i, j)\<close>.\<close>

definition interact :: "nat \<Rightarrow> nat \<Rightarrow> particle list \<Rightarrow> particle list" where
  "interact i j particles =
     (let force = coulomb_force (particles ! i) (particles ! j);
          particles1 = particles[i := applyForce (particles ! i) (vec_mult force 1)]
      in particles1[j := applyForce (particles1 ! j) (vec_mult force (- 1))])"

text \<open>Lines 111 to 150: the accumulators are reset, then every pair \<open>i < j\<close> interacts.\<close>

definition force_pass :: "particle list \<Rightarrow> particle list" where
  "force_pass particles =
     fold (\<lambda>i ps. fold (\<lambda>j ps'. interact i j ps') [i + 1 ..< length particles] ps)
          [0 ..< length particles]
          (map resetForce particles)"

section \<open>Finite bodies and total momentum\<close>

text \<open>A body, or a force, all of whose fields are finite numbers.\<close>

definition finite_body :: "body \<Rightarrow> bool" where
  "finite_body b =
     (is_fin (b_mass b) \<and> is_fin (b_x b) \<and> is_fin (b_y b) \<and> is_fin (b_vx b) \<and> is_fin (b_vy b))"

definition finite_vec :: "vec \<Rightarrow> bool" where
  "finite_vec f = (is_fin (v_x f) \<and> is_fin (v_y f))"

text \<open>
  The total linear momentum of the bodies of \<open>state\<close>, by coordinate: the sum of
  mass times velocity.
\<close>

definition momentum_x :: "heap \<Rightarrow> ref list \<Rightarrow> real" where
  "momentum_x h state = sum_list (map (\<lambda>r. num_of (b_mass (h ! r)) * num_of (b_vx (h ! r))) state)"

definition momentum_y :: "heap \<Rightarrow> ref list \<Rightarrow> real" where
  "momentum_y h state = sum_list (map (\<lambda>r. num_of (b_mass (h ! r)) * num_of (b_vy (h ! r))) state)"

text \<open>
  An array of \<open>n\<close> finite accumulators whose sum is the zero vector: what the
  pairwise loop maintains.
\<close>

definition balanced :: "nat \<Rightarrow> vec list \<Rightarrow> bool" where
  "balanced n forces =
     (length forces = n \<and> list_all finite_vec forces \<and>
      sum_list (map (\<lambda>f. num_of (v_x f)) forces) = 0 \<and>
      sum_list (map (\<lambda>f. num_of (v_y f)) forces) = 0)"

section \<open>Concrete inputs\<close>

text \<open>One body of mass 1 at the origin, moving along \<open>x\<close> with speed 1.\<close>

definition moving_body :: heap where
  "moving_body = [\<lparr>b_mass = Fin 1, b_x = Fin 0, b_y = Fin 0, b_vx = Fin 1, b_vy = Fin 0\<rparr>]"

text \<open>Two bodies of mass 1 at rest, at \<open>(0, 0)\<close> and \<open>(10, 0)\<close>.\<close>

definition two_bodies :: heap where
  "two_bodies = [\<lparr>b_mass = Fin 1, b_x = Fin 0, b_y = Fin 0, b_vx = Fin 0, b_vy = Fin 0\<rparr>,
                 \<lparr>b_mass = Fin 1, b_x = Fin 10, b_y = Fin 0, b_vx = Fin 0, b_vy = Fin 0\<rparr>]"

text \<open>One body of mass 0 at rest at the origin.\<close>

definition massless_body :: heap where
  "massless_body = [\<lparr>b_mass = Fin 0, b_x = Fin 0, b_y = Fin 0, b_vx = Fin 0, b_vy = Fin 0\<rparr>]"

text \<open>Two particles of charge \<open>+1\<close> and \<open>-1\<close> at rest, at \<open>(0, 0)\<close> and \<open>(3, 4)\<close>.\<close>

definition two_particles :: "particle list" where
  "two_particles =
     [\<lparr>pos = \<lparr>p_x = 0, p_y = 0\<rparr>, vel = \<lparr>p_x = 0, p_y = 0\<rparr>,
       acc = \<lparr>p_x = 0, p_y = 0\<rparr>, charge = 1\<rparr>,
      \<lparr>pos = \<lparr>p_x = 3, p_y = 4\<rparr>, vel = \<lparr>p_x = 0, p_y = 0\<rparr>,
       acc = \<lparr>p_x = 0, p_y = 0\<rparr>, charge = - 1\<rparr>]"

section \<open>The loop over the steps\<close>

text \<open>
  For a finite \<open>steps\<close> the loop applies \<open>sim_step\<close> once for every whole number
  below \<open>steps\<close> and appends the snapshot taken after each application. It makes no
  iteration when the first comparison fails, and it returns nothing for \<open>Infinity\<close>.
\<close>

lemma sim_loop_unfold:
  "sim_loop state dt (Fin s) jitter rnd step hk tr =
     Some (fst ((sim_step state dt jitter rnd ^^ (nat \<lceil>s\<rceil> - step)) hk),
      tr @ map (\<lambda>q. snapshot (fst ((sim_step state dt jitter rnd ^^ (q + 1)) hk)) state)
               [0 ..< nat \<lceil>s\<rceil> - step])"
proof (induction "nat \<lceil>s\<rceil> - step" arbitrary: step hk tr)
  case 0
  then have "\<not> real step < s"
    by (metis less_ceiling_iff of_int_of_nat_eq zero_less_diff zless_nat_eq_int_zless
        less_numeral_extra(3))
  with 0 show ?case
    by (subst sim_loop.simps) simp
next
  case (Suc m)
  then have lt: "real step < s"
    by (metis less_ceiling_iff of_int_of_nat_eq zero_less_diff zless_nat_eq_int_zless
        zero_less_Suc)
  have m: "m = nat \<lceil>s\<rceil> - (step + 1)"
    using Suc.hyps(2) by simp
  have eq: "nat \<lceil>s\<rceil> - step = Suc m"
    using Suc.hyps(2) by simp
  show ?case
    apply (subst sim_loop.simps)
    apply (simp only: js_less.simps lt if_True)
    apply (subst Suc.hyps(1) [OF m])
    apply (simp only: eq m [symmetric] map_upt_Suc)
    apply (simp add: funpow_swap1)
    done
qed

lemma sim_loop_no_iteration:
  "\<not> js_less (Fin 0) steps \<Longrightarrow> sim_loop state dt steps jitter rnd 0 hk tr = Some (fst hk, tr)"
  by (subst sim_loop.simps) simp

lemma sim_loop_returns_finite:
  assumes "sim_loop state dt steps jitter rnd step hk tr = Some r"
  shows "steps \<noteq> PInf"
  by (rule sim_loop.raw_induct
        [where P = "\<lambda>state dt steps jitter rnd step hk tr r. steps \<noteq> PInf", OF _ assms])
    (auto split: if_splits)

lemma sim_loop_infinity: "sim_loop state dt PInf jitter rnd step hk tr = None"
  using sim_loop_returns_finite [of state dt PInf jitter rnd step hk tr]
  by (cases "sim_loop state dt PInf jitter rnd step hk tr") auto

lemma copy_bodies_objects:
  "\<forall>r\<in>set rs. r < length h \<Longrightarrow>
   copy_bodies h (map Some rs) =
     Inr (map (\<lambda>r. \<lparr>b_mass = b_mass (h ! r), b_x = b_x (h ! r), b_y = b_y (h ! r),
                      b_vx = b_vx (h ! r), b_vy = b_vy (h ! r)\<rparr>) rs)"
  by (induction rs) simp_all

lemma copy_bodies_error: "copy_bodies h bodies = Inl e \<Longrightarrow> e = TypeError"
  by (induction h bodies rule: copy_bodies.induct) (auto split: if_splits sum.splits)

lemma copy_bodies_length: "copy_bodies h bodies = Inr copies \<Longrightarrow> length copies = length bodies"
  by (induction h bodies arbitrary: copies rule: copy_bodies.induct)
    (auto split: if_splits sum.splits)

lemma snapshot_length: "length (snapshot h state) = length state"
  by (simp add: snapshot_def)

section \<open>The outcomes of \<open>simulate\<close>\<close>

lemma simulate_objects:
  assumes "\<forall>r\<in>set rs. r < length h"
  shows "simulate h (map Some rs) dt steps jitter rnd =
     map_option Inr
       (sim_loop [length h ..< length h + length rs] dt steps jitter rnd 0
          (h @ map (\<lambda>r. \<lparr>b_mass = b_mass (h ! r), b_x = b_x (h ! r), b_y = b_y (h ! r),
                            b_vx = b_vx (h ! r), b_vy = b_vy (h ! r)\<rparr>) rs, 0) [])"
  by (simp add: simulate_def copy_bodies_objects [OF assms])

lemma simulate_error: "simulate h bodies dt steps jitter rnd = Some (Inl e) \<Longrightarrow> e = TypeError"
  by (auto simp: simulate_def Let_def split: sum.splits dest: copy_bodies_error)

lemma copy_bodies_null: "None \<in> set bodies \<Longrightarrow> copy_bodies h bodies = Inl TypeError"
  by (induction h bodies rule: copy_bodies.induct) (auto split: sum.splits dest: copy_bodies_error)

lemma simulate_finite_steps:
  assumes "\<forall>r\<in>set rs. r < length h"
  shows "simulate h (map Some rs) dt (Fin s) jitter rnd =
     Some (Inr
       (fst ((sim_step [length h ..< length h + length rs] dt jitter rnd ^^ nat \<lceil>s\<rceil>)
          (h @ map (\<lambda>r. \<lparr>b_mass = b_mass (h ! r), b_x = b_x (h ! r), b_y = b_y (h ! r),
                            b_vx = b_vx (h ! r), b_vy = b_vy (h ! r)\<rparr>) rs, 0)),
        map (\<lambda>q. snapshot
               (fst ((sim_step [length h ..< length h + length rs] dt jitter rnd ^^ (q + 1))
                 (h @ map (\<lambda>r. \<lparr>b_mass = b_mass (h ! r), b_x = b_x (h ! r),
                                   b_y = b_y (h ! r), b_vx = b_vx (h ! r),
                                   b_vy = b_vy (h ! r)\<rparr>) rs, 0)))
               [length h ..< length h + length rs])
          [0 ..< nat \<lceil>s\<rceil>]))"
  by (simp add: simulate_objects [OF assms] sim_loop_unfold)

section \<open>No resource limit, no validation\<close>

text \<open>
  C3, as the claim states it: there is a limit such that every call whose number of
  bodies times \<open>steps\<close> exceeds it fails with \<open>ResourceLimitError\<close>. No limit does
  that: one body and \<open>\<bar>limit\<bar> + 1\<close> steps exceed the limit, and the call does not
  fail with that error.
\<close>

theorem resource_limit_counterexample:
  "\<not> (\<exists>limit. \<forall>h bodies dt steps jitter rnd.
         js_less (Fin limit) (Fin (real (length bodies)) * steps) \<longrightarrow>
         simulate h bodies dt steps jitter rnd = Some (Inl ResourceLimitError))"
proof
  assume "\<exists>limit. \<forall>h bodies dt steps jitter rnd.
         js_less (Fin limit) (Fin (real (length bodies)) * steps) \<longrightarrow>
         simulate h bodies dt steps jitter rnd = Some (Inl ResourceLimitError)"
  then obtain limit where
    fails: "\<And>h bodies dt steps jitter rnd.
              js_less (Fin limit) (Fin (real (length bodies)) * steps) \<Longrightarrow>
              simulate h bodies dt steps jitter rnd = Some (Inl ResourceLimitError)"
    by blast
  have "js_less (Fin limit) (Fin (real (length [Some (0::nat)])) * Fin (\<bar>limit\<bar> + 1))"
    by simp
  then have "simulate moving_body [Some 0] (Fin 1) (Fin (\<bar>limit\<bar> + 1)) (Fin 0) (const_rnd 0)
               = Some (Inl ResourceLimitError)"
    by (rule fails)
  then show False
    by (auto dest: simulate_error)
qed

text \<open>
  C3, amended: no call of \<open>simulate\<close>, whatever its number of bodies times its
  number of steps, fails with a \<open>ResourceLimitError\<close>: the source has no limit and no
  check of that product.
\<close>

theorem simulate_no_resource_limit:
  "simulate h bodies dt steps jitter rnd \<noteq> Some (Inl ResourceLimitError)"
  by (auto dest: simulate_error)

text \<open>
  C4, as the claim states it, fails for a negative \<open>dt\<close>: with \<open>dt = -1\<close> the
  body that moves along \<open>x\<close> with speed 1 is integrated backwards and the trajectory
  is returned.
\<close>

theorem validation_counterexample:
  "simulate moving_body [Some 0] (Fin (- 1)) (Fin 1) (Fin 0) (const_rnd 0) =
     Some (Inr ([\<lparr>b_mass = Fin 1, b_x = Fin 0, b_y = Fin 0, b_vx = Fin 1, b_vy = Fin 0\<rparr>,
           \<lparr>b_mass = Fin 1, b_x = Fin (- 1), b_y = Fin 0, b_vx = Fin 1, b_vy = Fin 0\<rparr>],
          [[\<lparr>v_x = Fin (- 1), v_y = Fin 0\<rparr>]]))"
  by (simp add: simulate_def sim_loop.simps sim_step_def integrate_body_def advance_def
      snapshot_def compute_forces_def moving_body_def const_rnd_def minus_jsnum_def Let_def)

text \<open>
  C4, amended: no call of \<open>simulate\<close> fails with a \<open>ValidationError\<close>. An entry of
  \<open>bodies\<close> that is no object (\<open>null\<close>, \<open>undefined\<close>) makes the call throw a
  \<open>TypeError\<close>. When all entries are objects and \<open>steps\<close> is a finite number, the
  call returns a trajectory with one position per body in every snapshot, whatever the
  fields are (missing or non-finite ones included) and whatever \<open>dt\<close> is (negative
  and zero included); for a \<open>steps\<close> that is zero or negative the trajectory is empty.
\<close>

theorem simulate_validates_nothing:
  "simulate h bodies dt steps jitter rnd \<noteq> Some (Inl ValidationError) \<and>
   (None \<in> set bodies \<longrightarrow> simulate h bodies dt steps jitter rnd = Some (Inl TypeError)) \<and>
   ((\<forall>r\<in>set rs. r < length h) \<longrightarrow>
      (\<exists>h' t. simulate h (map Some rs) dt (Fin s) jitter rnd = Some (Inr (h', t)) \<and>
              list_all (\<lambda>sn. length sn = length rs) t \<and>
              (s \<le> 0 \<longrightarrow> t = [])))"
proof (intro conjI impI)
  show "simulate h bodies dt steps jitter rnd \<noteq> Some (Inl ValidationError)"
    by (auto dest: simulate_error)
next
  assume "None \<in> set bodies"
  then show "simulate h bodies dt steps jitter rnd = Some (Inl TypeError)"
    by (simp add: simulate_def copy_bodies_null)
next
  assume ok: "\<forall>r\<in>set rs. r < length h"
  have "s \<le> 0 \<Longrightarrow> nat \<lceil>s\<rceil> = 0"
    by (simp add: ceiling_le_zero)
  then show "\<exists>h' t. simulate h (map Some rs) dt (Fin s) jitter rnd = Some (Inr (h', t)) \<and>
              list_all (\<lambda>sn. length sn = length rs) t \<and> (s \<le> 0 \<longrightarrow> t = [])"
    by (simp add: simulate_finite_steps [OF ok] list_all_iff snapshot_length)
qed

theorem simulate_validates_nothing_witness:
  "None \<in> set [None :: entry] \<and>
   simulate moving_body [None] (Fin 0) (Fin (- 1)) (Fin 0) (const_rnd 0) = Some (Inl TypeError) \<and>
   0 < length moving_body \<and> (- 1 :: real) \<le> 0 \<and>
   (\<exists>h'. simulate moving_body (map Some [0]) (Fin 0) (Fin (- 1)) (Fin 0) (const_rnd 0) =
           Some (Inr (h', [])))"
  using simulate_validates_nothing [of moving_body "[None]" "Fin 0" "Fin (- 1)" "Fin 0"
      "const_rnd 0" "[0]" "- 1"]
  by (auto simp: moving_body_def)

section \<open>Zero jitter\<close>

lemma advance_zero_jitter: "advance f dt (Fin 0) r1 r2 b = advance f dt (Fin 0) r1' r2' b"
  by (simp add: advance_def minus_jsnum_def)

lemma integrate_body_zero_jitter:
  "fst (integrate_body forces state dt (Fin 0) rnd i (h, k)) =
   fst (integrate_body forces state dt (Fin 0) rnd' i (h, k'))"
  by (simp add: integrate_body_def Let_def
      advance_zero_jitter [of _ _ "rnd k" "rnd (Suc k)" _ "rnd' k'" "rnd' (Suc k')"])

lemma fold_integrate_zero_jitter:
  "fst (fold (integrate_body forces state dt (Fin 0) rnd) is (h, k)) =
   fst (fold (integrate_body forces state dt (Fin 0) rnd') is (h, k'))"
proof (induction "is" arbitrary: h k k')
  case Nil
  show ?case by simp
next
  case (Cons i "is")
  obtain h1 k1 where a: "integrate_body forces state dt (Fin 0) rnd i (h, k) = (h1, k1)"
    by (cases "integrate_body forces state dt (Fin 0) rnd i (h, k)")
  obtain h2 k2 where b: "integrate_body forces state dt (Fin 0) rnd' i (h, k') = (h2, k2)"
    by (cases "integrate_body forces state dt (Fin 0) rnd' i (h, k')")
  have "h1 = h2"
    using integrate_body_zero_jitter [of forces state dt rnd i h k rnd' k'] a b by simp
  then show ?case
    using Cons.IH [of h1 k1 k2] a b by simp
qed

lemma sim_step_zero_jitter:
  "fst hk = fst hk' \<Longrightarrow>
   fst (sim_step state dt (Fin 0) rnd hk) = fst (sim_step state dt (Fin 0) rnd' hk')"
  by (cases hk, cases hk')
    (simp add: sim_step_def fold_integrate_zero_jitter [where rnd = rnd and rnd' = rnd'])

lemma funpow_sim_step_zero_jitter:
  "fst hk = fst hk' \<Longrightarrow>
   fst ((sim_step state dt (Fin 0) rnd ^^ m) hk) = fst ((sim_step state dt (Fin 0) rnd' ^^ m) hk')"
proof (induction m)
  case 0
  then show ?case by simp
next
  case (Suc m)
  then show ?case
    by (simp add: sim_step_zero_jitter)
qed

section \<open>The caller's bodies are not written\<close>

lemma integrate_body_take:
  "n \<le> state ! i \<Longrightarrow>
   take n (fst (integrate_body forces state dt jitter rnd i hk)) = take n (fst hk)"
  by (cases hk) (simp add: integrate_body_def Let_def)

lemma fold_integrate_take:
  "\<forall>i \<in> set is. n \<le> state ! i \<Longrightarrow>
   take n (fst (fold (integrate_body forces state dt jitter rnd) is hk)) = take n (fst hk)"
  by (induction "is" arbitrary: hk) (simp_all add: integrate_body_take)

lemma sim_step_take:
  "\<forall>i < length state. n \<le> state ! i \<Longrightarrow>
   take n (fst (sim_step state dt jitter rnd hk)) = take n (fst hk)"
  by (cases hk) (simp add: sim_step_def fold_integrate_take)

lemma funpow_sim_step_take:
  "\<forall>i < length state. n \<le> state ! i \<Longrightarrow>
   take n (fst ((sim_step state dt jitter rnd ^^ m) hk)) = take n (fst hk)"
  by (induction m) (simp_all add: sim_step_take)

lemma integrate_body_length:
  "length (fst (integrate_body forces state dt jitter rnd i hk)) = length (fst hk)"
  by (cases hk) (simp add: integrate_body_def Let_def)

lemma fold_integrate_length:
  "length (fst (fold (integrate_body forces state dt jitter rnd) is hk)) = length (fst hk)"
  by (induction "is" arbitrary: hk) (simp_all add: integrate_body_length)

lemma sim_step_length:
  "length (fst (sim_step state dt jitter rnd hk)) = length (fst hk)"
  by (cases hk) (simp add: sim_step_def fold_integrate_length)

lemma funpow_sim_step_length:
  "length (fst ((sim_step state dt jitter rnd ^^ m) hk)) = length (fst hk)"
  by (induction m) (simp_all add: sim_step_length)

text \<open>
  C6: when all entries of \<open>bodies\<close> are objects and \<open>steps\<close> is not
  \<open>Infinity\<close>, \<open>simulate\<close> returns, and every object that was in the store before
  the call, so every body of the caller's array, has the field values it had before:
  the store after the call is the store before it followed by the new objects. The array
  \<open>bodies\<close> itself is only read. (In the other cases the call does not return.)
\<close>

theorem simulate_leaves_input_unchanged:
  assumes "\<forall>r\<in>set rs. r < length h" and "steps \<noteq> PInf"
  shows "\<exists>h' t. simulate h (map Some rs) dt steps jitter rnd = Some (Inr (h', t)) \<and>
          take (length h) h' = h \<and>
          length h' = length h + length rs"
proof (cases steps)
  case (Fin s)
  show ?thesis
    unfolding Fin
    by (simp add: simulate_finite_steps [OF assms(1)] funpow_sim_step_take
        funpow_sim_step_length)
next
  case PInf
  with assms(2) show ?thesis by simp
next
  case NInf
  show ?thesis
    unfolding NInf by (simp add: simulate_objects [OF assms(1)] sim_loop_no_iteration)
next
  case NaN
  show ?thesis
    unfolding NaN by (simp add: simulate_objects [OF assms(1)] sim_loop_no_iteration)
qed

theorem simulate_leaves_input_unchanged_witness:
  "0 < length two_bodies \<and> 1 < length two_bodies \<and> Fin 3 \<noteq> PInf \<and>
   (\<exists>h' t. simulate two_bodies (map Some [0, 1]) (Fin 1) (Fin 3) (Fin 1) (const_rnd 0) =
             Some (Inr (h', t)) \<and>
           take (length two_bodies) h' = two_bodies \<and> length h' = 4)"
  using simulate_leaves_input_unchanged [of "[0, 1]" two_bodies "Fin 3" "Fin 1" "Fin 1"
      "const_rnd 0"]
  by (auto simp: two_bodies_def)

section \<open>The shape of the trajectory\<close>



section \<open>The two-body scenario\<close>

lemma sqrt_soft_gt: "10 < sqrt (10000000001 / 100000000)"
  by (rule real_less_rsqrt) simp

lemma sqrt_soft_lt: "sqrt (10000000001 / 100000000) < 10000000001 / 1000000000"
  by (rule real_less_lsqrt) (simp_all add: power2_eq_square)

lemma scenario_force_less:
  "1000000000 / (10000000001 * sqrt (10000000001 / 100000000)) < (1 / 100 :: real)"
proof -
  have "10000000001 * 10 < 10000000001 * sqrt (10000000001 / 100000000)"
    using sqrt_soft_gt by simp
  then show ?thesis
    by (simp add: field_simps)
qed

lemma scenario_force_greater:
  "(99999999 / 10000000000 :: real) <
     1000000000 / (10000000001 * sqrt (10000000001 / 100000000))"
proof -
  have "10000000001 * sqrt (10000000001 / 100000000) <
        10000000001 * (10000000001 / 1000000000)"
    using sqrt_soft_lt by simp
  moreover have "0 < sqrt (10000000001 / 100000000 :: real)"
    by simp
  ultimately show ?thesis
    by (simp add: field_simps)
qed

lemma scenario_eval:
  "simulate two_bodies [Some 0, Some 1] (Fin 1) (Fin 1) (Fin 0) rnd =
   Some (Inr (two_bodies @
        [\<lparr>b_mass = Fin 1,
          b_x = Fin (1000000000 / (10000000001 * sqrt (10000000001 / 100000000))),
          b_y = Fin 0,
          b_vx = Fin (1000000000 / (10000000001 * sqrt (10000000001 / 100000000))),
          b_vy = Fin 0\<rparr>,
         \<lparr>b_mass = Fin 1,
          b_x = Fin (10 - 1000000000 / (10000000001 * sqrt (10000000001 / 100000000))),
          b_y = Fin 0,
          b_vx = Fin (- (1000000000 / (10000000001 * sqrt (10000000001 / 100000000)))),
          b_vy = Fin 0\<rparr>],
        [[\<lparr>v_x = Fin (1000000000 / (10000000001 * sqrt (10000000001 / 100000000))),
           v_y = Fin 0\<rparr>,
          \<lparr>v_x = Fin (10 - 1000000000 / (10000000001 * sqrt (10000000001 / 100000000))),
           v_y = Fin 0\<rparr>]]))"
  by (simp add: simulate_def sim_loop.simps sim_step_def integrate_body_def advance_def
      snapshot_def compute_forces_def two_bodies_def add_pair_def pair_force_def grav_distSq_def
      G_def upt_rec minus_jsnum_def Let_def SOFTENING_def)

text \<open>
  C1, as the claim states it, fails: the trajectory of the scenario is not the single
  snapshot \<open>[(0.01, 0), (9.99, 0)]\<close>.
\<close>

theorem scenario_counterexample:
  "map_option (map_sum id snd)
     (simulate two_bodies [Some 0, Some 1] (Fin 1) (Fin 1) (Fin 0) (const_rnd 0)) \<noteq>
     Some (Inr [[\<lparr>v_x = Fin (1 / 100), v_y = Fin 0\<rparr>, \<lparr>v_x = Fin (999 / 100), v_y = Fin 0\<rparr>]])"
  by (simp only: scenario_eval, insert scenario_force_less, simp)

text \<open>
  C1, amended: the squared distance of the scenario is \<open>100 + 1e-8\<close>, not \<open>100\<close>,
  so the force along \<open>x\<close> is \<open>F = 10 / ((100 + 1e-8) * sqrt (100 + 1e-8))\<close>, which
  lies strictly between \<open>0.0099999999\<close> and \<open>0.01\<close>. The single snapshot is
  \<open>[(F, 0), (10 - F, 0)]\<close>: body 0 is displaced by exactly \<open>+F\<close> along \<open>x\<close> and
  body 1 by exactly \<open>-F\<close>, whatever the random source returns.
\<close>

theorem scenario_with_softening:
  "let F = 10 / ((100 + SOFTENING) * sqrt (100 + SOFTENING)) in
     pair_force (two_bodies ! 0) (two_bodies ! 1) = \<lparr>v_x = Fin F, v_y = Fin 0\<rparr> \<and>
     map_option (map_sum id snd)
       (simulate two_bodies [Some 0, Some 1] (Fin 1) (Fin 1) (Fin 0) rnd) =
       Some (Inr [[\<lparr>v_x = Fin F, v_y = Fin 0\<rparr>, \<lparr>v_x = Fin (10 - F), v_y = Fin 0\<rparr>]]) \<and>
     99999999 / 10000000000 < F \<and> F < 1 / 100"
proof -
  have F: "10 / ((100 + SOFTENING) * sqrt (100 + SOFTENING)) =
           1000000000 / (10000000001 * sqrt (10000000001 / 100000000))"
    by (simp add: SOFTENING_def)
  have force: "pair_force (two_bodies ! 0) (two_bodies ! 1) =
      \<lparr>v_x = Fin (1000000000 / (10000000001 * sqrt (10000000001 / 100000000))), v_y = Fin 0\<rparr>"
    by (simp add: two_bodies_def pair_force_def grav_distSq_def G_def minus_jsnum_def Let_def
        SOFTENING_def)
  show ?thesis
    unfolding Let_def F
    by (simp only: scenario_eval force, insert scenario_force_less scenario_force_greater, simp)
qed

section \<open>The denominator of the force law\<close>

lemma softened_pos: "0 < a * a + b * b + SOFTENING"
proof -
  have "0 \<le> a * a + b * b" by simp
  moreover have "0 < SOFTENING" by (simp add: SOFTENING_def)
  ultimately show ?thesis by (rule add_nonneg_pos)
qed

text \<open>
  C2, as the claim states it, fails for the gravity variant: for the two bodies ten
  units apart the denominator is \<open>100 + 1e-8\<close>, not \<open>max 100 1e-8 = 100\<close>, and the
  force of the pair is not the one that the floored denominator would give.
\<close>

theorem softening_counterexample:
  "grav_distSq (two_bodies ! 0) (two_bodies ! 1) \<noteq>
     Fin (max ((10 - 0) * (10 - 0) + (0 - 0) * (0 - 0)) SOFTENING) \<and>
   v_x (pair_force (two_bodies ! 0) (two_bodies ! 1)) \<noteq>
     Fin (1 * 1 * 1 / max ((10 - 0) * (10 - 0) + (0 - 0) * (0 - 0)) SOFTENING *
          ((10 - 0) / sqrt (max ((10 - 0) * (10 - 0) + (0 - 0) * (0 - 0)) SOFTENING)))"
  using scenario_force_less
  by (simp add: two_bodies_def pair_force_def grav_distSq_def G_def minus_jsnum_def Let_def
      SOFTENING_def)

text \<open>
  C2, amended. In the Coulomb variant the force law divides by the squared distance
  floored at \<open>MIN_DIST_SQ = 25\<close>: with \<open>D = max |d|\<^sup>2 25\<close> the force of a pair is
  \<open>(d / sqrt D) * (500 * chargeA * chargeB / D)\<close>. In the gravity variant, for finite
  positions and masses, it divides by the squared distance plus the softening term: with
  \<open>D = |d|\<^sup>2 + 1e-8\<close>, which is positive, the force of a pair is
  \<open>(G * massA * massB / D) * (d / sqrt D)\<close> with \<open>G = 1\<close>. In both, \<open>d\<close> is the
  position of the second body minus that of the first.
\<close>

theorem softening_denominators:
  "(let dx = p_x (pos p2) - p_x (pos p1);
        dy = p_y (pos p2) - p_y (pos p1);
        D = max (dx * dx + dy * dy) 25
    in coulomb_distSq p1 p2 = D \<and>
       coulomb_force p1 p2 =
         \<lparr>p_x = dx / sqrt D * (500 * charge p1 * charge p2 / D),
          p_y = dy / sqrt D * (500 * charge p1 * charge p2 / D)\<rparr>) \<and>
   (let bi = \<lparr>b_mass = Fin mi, b_x = Fin xi, b_y = Fin yi, b_vx = vxi, b_vy = vyi\<rparr>;
        bj = \<lparr>b_mass = Fin mj, b_x = Fin xj, b_y = Fin yj, b_vx = vxj, b_vy = vyj\<rparr>;
        dx = xj - xi;
        dy = yj - yi;
        D = dx * dx + dy * dy + 1 / 10 ^ 8
    in 0 < D \<and>
       grav_distSq bi bj = Fin D \<and>
       pair_force bi bj =
         \<lparr>v_x = Fin (1 * mi * mj / D * (dx / sqrt D)),
          v_y = Fin (1 * mi * mj / D * (dy / sqrt D))\<rparr>)"
proof -
  have p: "0 < (xj - xi) * (xj - xi) + (yj - yi) * (yj - yi) + SOFTENING"
    by (rule softened_pos)
  then have q: "\<not> (xj - xi) * (xj - xi) + (yj - yi) * (yj - yi) + SOFTENING < 0"
    and r: "(xj - xi) * (xj - xi) + (yj - yi) * (yj - yi) + SOFTENING \<noteq> 0"
    and t: "sqrt ((xj - xi) * (xj - xi) + (yj - yi) * (yj - yi) + SOFTENING) \<noteq> 0"
    by simp_all
  have grav: "grav_distSq \<lparr>b_mass = Fin mi, b_x = Fin xi, b_y = Fin yi, b_vx = vxi, b_vy = vyi\<rparr>
        \<lparr>b_mass = Fin mj, b_x = Fin xj, b_y = Fin yj, b_vx = vxj, b_vy = vyj\<rparr> =
      Fin ((xj - xi) * (xj - xi) + (yj - yi) * (yj - yi) + SOFTENING)"
    by (simp add: grav_distSq_def minus_jsnum_def Let_def)
  have force: "pair_force \<lparr>b_mass = Fin mi, b_x = Fin xi, b_y = Fin yi, b_vx = vxi, b_vy = vyi\<rparr>
        \<lparr>b_mass = Fin mj, b_x = Fin xj, b_y = Fin yj, b_vx = vxj, b_vy = vyj\<rparr> =
      \<lparr>v_x = Fin (1 * mi * mj / ((xj - xi) * (xj - xi) + (yj - yi) * (yj - yi) + SOFTENING) *
                  ((xj - xi) / sqrt ((xj - xi) * (xj - xi) + (yj - yi) * (yj - yi) + SOFTENING))),
       v_y = Fin (1 * mi * mj / ((xj - xi) * (xj - xi) + (yj - yi) * (yj - yi) + SOFTENING) *
                  ((yj - yi) / sqrt ((xj - xi) * (xj - xi) + (yj - yi) * (yj - yi) + SOFTENING)))\<rparr>"
    using q r t
    by (simp add: pair_force_def grav minus_jsnum_def G_def Let_def)
  have soft: "SOFTENING = 1 / 10 ^ 8"
    by (simp add: SOFTENING_def)
  have coul: "coulomb_force p1 p2 =
      \<lparr>p_x = (p_x (pos p2) - p_x (pos p1)) / sqrt (coulomb_distSq p1 p2) *
               (500 * charge p1 * charge p2 / coulomb_distSq p1 p2),
       p_y = (p_y (pos p2) - p_y (pos p1)) / sqrt (coulomb_distSq p1 p2) *
               (500 * charge p1 * charge p2 / coulomb_distSq p1 p2)\<rparr>"
    by (simp add: coulomb_force_def vec_sub_def vec_div_def vec_mult_def COULOMB_CONSTANT_def
        Let_def)
  have cd: "coulomb_distSq p1 p2 =
      max ((p_x (pos p2) - p_x (pos p1)) * (p_x (pos p2) - p_x (pos p1)) +
           (p_y (pos p2) - p_y (pos p1)) * (p_y (pos p2) - p_y (pos p1))) 25"
    by (simp add: coulomb_distSq_def vec_sub_def magSq_def MIN_DIST_SQ_def Let_def)
  show ?thesis
    unfolding Let_def
    using p by (simp only: grav force coul cd soft)
qed

section \<open>Equal and opposite forces\<close>

text \<open>
  C9: for a pair \<open>i < j\<close> of one accumulation pass, under either law, what is added to
  the accumulator of \<open>j\<close> is the negation of what is added to the accumulator of
  \<open>i\<close>. In the gravity variant \<open>forces[i]\<close> receives \<open>(fx, fy)\<close> and \<open>forces[j]\<close>
  receives \<open>(-fx, -fy)\<close>; in the Coulomb variant \<open>acc\<close> of particle \<open>i\<close> receives
  \<open>force\<close> and \<open>acc\<close> of particle \<open>j\<close> receives \<open>-force\<close>.
\<close>

theorem equal_and_opposite:
  "i < j \<Longrightarrow> j < length forces \<Longrightarrow> j < length particles \<Longrightarrow>
   (let f = pair_force (h ! (state ! i)) (h ! (state ! j));
        forces' = add_pair h state i j forces
    in v_x (forces' ! i) = v_x (forces ! i) + v_x f \<and>
       v_y (forces' ! i) = v_y (forces ! i) + v_y f \<and>
       v_x (forces' ! j) = v_x (forces ! j) + (- v_x f) \<and>
       v_y (forces' ! j) = v_y (forces ! j) + (- v_y f)) \<and>
   (let force = coulomb_force (particles ! i) (particles ! j);
        particles' = interact i j particles
    in acc (particles' ! i) = vec_add (acc (particles ! i)) force \<and>
       acc (particles' ! j) =
         vec_add (acc (particles ! j)) \<lparr>p_x = - p_x force, p_y = - p_y force\<rparr>)"
  by (simp add: add_pair_def interact_def applyForce_def vec_mult_def vec_add_def
      minus_jsnum_def Let_def)

theorem equal_and_opposite_witness:
  "(0::nat) < 1 \<and> 1 < length [\<lparr>v_x = Fin 0, v_y = Fin 0\<rparr>, \<lparr>v_x = Fin 0, v_y = Fin 0\<rparr>] \<and>
   1 < length two_particles \<and>
   v_x (add_pair two_bodies [0, 1] 0 1
          [\<lparr>v_x = Fin 0, v_y = Fin 0\<rparr>, \<lparr>v_x = Fin 0, v_y = Fin 0\<rparr>] ! 1) =
     Fin 0 + (- v_x (pair_force (two_bodies ! 0) (two_bodies ! 1))) \<and>
   acc (interact 0 1 two_particles ! 1) =
     vec_add (acc (two_particles ! 1))
       \<lparr>p_x = - p_x (coulomb_force (two_particles ! 0) (two_particles ! 1)),
        p_y = - p_y (coulomb_force (two_particles ! 0) (two_particles ! 1))\<rparr>"
  using equal_and_opposite [of 0 1 "[\<lparr>v_x = Fin 0, v_y = Fin 0\<rparr>, \<lparr>v_x = Fin 0, v_y = Fin 0\<rparr>]"
      two_particles two_bodies "[0, 1]"]
  by (simp add: two_particles_def Let_def)

section \<open>Reading the store after the integration loop\<close>

text \<open>
  When the references of \<open>state\<close> are distinct and allocated, the integration loop
  leaves in object \<open>state[i]\<close> the fields that \<open>advance\<close> computes from the fields
  it had before the loop, with the draws \<open>2 i\<close> and \<open>2 i + 1\<close> of the step.
\<close>

lemma fold_integrate_nth:
  assumes d: "distinct state" and v: "\<forall>i<length state. state ! i < length h"
  shows "m \<le> length state \<Longrightarrow>
    snd (fold (integrate_body forces state dt jitter rnd) [0 ..< m] (h, k)) = k + 2 * m \<and>
    length (fst (fold (integrate_body forces state dt jitter rnd) [0 ..< m] (h, k))) = length h \<and>
    (\<forall>i<length state.
       fst (fold (integrate_body forces state dt jitter rnd) [0 ..< m] (h, k)) ! (state ! i) =
         (if i < m
          then advance (forces ! i) dt jitter (rnd (k + 2 * i)) (rnd (k + 2 * i + 1)) (h ! (state ! i))
          else h ! (state ! i)))"
proof (induction m)
  case 0
  show ?case by simp
next
  case (Suc m)
  obtain h1 k1 where F: "fold (integrate_body forces state dt jitter rnd) [0 ..< m] (h, k) = (h1, k1)"
    by (cases "fold (integrate_body forces state dt jitter rnd) [0 ..< m] (h, k)")
  from Suc have m: "m < length state" by simp
  from Suc.IH F m have k1: "k1 = k + 2 * m" and len: "length h1 = length h"
    and nth: "\<And>i. i < length state \<Longrightarrow> h1 ! (state ! i) =
         (if i < m
          then advance (forces ! i) dt jitter (rnd (k + 2 * i)) (rnd (k + 2 * i + 1)) (h ! (state ! i))
          else h ! (state ! i))"
    by simp_all
  have cur: "h1 ! (state ! m) = h ! (state ! m)"
    using nth [OF m] by simp
  have inrange: "state ! m < length h1"
    using v m len by simp
  have step: "fold (integrate_body forces state dt jitter rnd) [0 ..< Suc m] (h, k) =
      (h1[state ! m := advance (forces ! m) dt jitter (rnd (k + 2 * m)) (rnd (k + 2 * m + 1))
                         (h ! (state ! m))], k + 2 * m + 2)"
    by (simp add: F integrate_body_def Let_def k1 cur)
  have "\<forall>i<length state.
      (h1[state ! m := advance (forces ! m) dt jitter (rnd (k + 2 * m)) (rnd (k + 2 * m + 1))
                         (h ! (state ! m))]) ! (state ! i) =
         (if i < Suc m
          then advance (forces ! i) dt jitter (rnd (k + 2 * i)) (rnd (k + 2 * i + 1)) (h ! (state ! i))
          else h ! (state ! i))"
  proof (intro allI impI)
    fix i assume i: "i < length state"
    show "(h1[state ! m := advance (forces ! m) dt jitter (rnd (k + 2 * m)) (rnd (k + 2 * m + 1))
                         (h ! (state ! m))]) ! (state ! i) =
         (if i < Suc m
          then advance (forces ! i) dt jitter (rnd (k + 2 * i)) (rnd (k + 2 * i + 1)) (h ! (state ! i))
          else h ! (state ! i))"
    proof (cases "i = m")
      case True
      then show ?thesis using inrange by simp
    next
      case False
      then have "state ! i \<noteq> state ! m"
        using d i m by (simp add: nth_eq_iff_index_eq)
      then show ?thesis
        using False nth [OF i] by auto
    qed
  qed
  then show ?case
    unfolding step by (simp add: len)
qed

lemma sim_step_nth:
  assumes "distinct state" and "\<forall>i<length state. state ! i < length h" and "i < length state"
  shows "fst (sim_step state dt jitter rnd (h, k)) ! (state ! i) =
           advance (compute_forces h state ! i) dt jitter (rnd (k + 2 * i)) (rnd (k + 2 * i + 1))
             (h ! (state ! i))"
  using fold_integrate_nth [OF assms(1) assms(2), of "length state"] assms(3)
  by (simp add: sim_step_def)

lemma not_fin_div_zero: "\<not> is_fin (a / Fin 0)"
  by (cases a) simp_all

lemma not_fin_times: "\<not> is_fin a \<Longrightarrow> \<not> is_fin (a * b)"
  by (cases a; cases b) simp_all

lemma not_fin_plus_right: "\<not> is_fin a \<Longrightarrow> \<not> is_fin (b + a)"
  by (cases a; cases b) simp_all

lemma not_fin_plus_left: "\<not> is_fin a \<Longrightarrow> \<not> is_fin (a + b)"
  by (cases a; cases b) simp_all

lemma advance_mass: "b_mass (advance f dt jitter r1 r2 b) = b_mass b"
  by (simp add: advance_def Let_def)

lemma advance_zero_mass:
  "b_mass b = Fin 0 \<Longrightarrow>
   \<not> is_fin (b_x (advance f dt jitter r1 r2 b)) \<and> \<not> is_fin (b_y (advance f dt jitter r1 r2 b))"
  by (simp add: advance_def Let_def not_fin_div_zero not_fin_times not_fin_plus_right
      not_fin_plus_left)

section \<open>A body of mass zero\<close>

lemma funpow_sim_step_mass:
  assumes d: "distinct state" and v: "\<forall>i<length state. state ! i < length (fst hk)"
    and i: "i < length state"
  shows "b_mass (fst ((sim_step state dt jitter rnd ^^ m) hk) ! (state ! i)) =
         b_mass (fst hk ! (state ! i))"
proof (induction m)
  case 0
  show ?case by simp
next
  case (Suc m)
  obtain hm km where hm: "(sim_step state dt jitter rnd ^^ m) hk = (hm, km)"
    by (cases "(sim_step state dt jitter rnd ^^ m) hk")
  have "length hm = length (fst hk)"
    using funpow_sim_step_length [where state = state and dt = dt and jitter = jitter and rnd = rnd and m = m and hk = hk] hm by simp
  then have v': "\<forall>i<length state. state ! i < length hm"
    using v by simp
  show ?case
    using Suc.IH hm by (simp add: sim_step_nth [OF d v' i] advance_mass)
qed

lemma zero_mass_after_step:
  assumes d: "distinct state" and v: "\<forall>i<length state. state ! i < length (fst hk)"
    and i: "i < length state" and z: "b_mass (fst hk ! (state ! i)) = Fin 0"
  shows "\<not> is_fin (b_x (fst ((sim_step state dt jitter rnd ^^ Suc q) hk) ! (state ! i))) \<and>
         \<not> is_fin (b_y (fst ((sim_step state dt jitter rnd ^^ Suc q) hk) ! (state ! i)))"
proof -
  obtain hq kq where hq: "(sim_step state dt jitter rnd ^^ q) hk = (hq, kq)"
    by (cases "(sim_step state dt jitter rnd ^^ q) hk")
  have "length hq = length (fst hk)"
    using funpow_sim_step_length [where state = state and dt = dt and jitter = jitter and rnd = rnd and m = q and hk = hk] hq by simp
  then have v': "\<forall>i<length state. state ! i < length hq"
    using v by simp
  have "b_mass (hq ! (state ! i)) = Fin 0"
    using funpow_sim_step_mass [OF d v i, where dt = dt and jitter = jitter and rnd = rnd and m = q] hq z by simp
  then show ?thesis
    by (simp add: hq sim_step_nth [OF d v' i] advance_zero_mass)
qed

text \<open>
  C5, as the claim states it, fails for one body of mass zero: no error is raised, and
  the acceleration \<open>0 / 0\<close> makes the velocity and the position \<open>NaN\<close>.
\<close>

theorem zero_mass_counterexample:
  "simulate massless_body [Some 0] (Fin 1) (Fin 1) (Fin 0) (const_rnd 0) =
     Some (Inr ([\<lparr>b_mass = Fin 0, b_x = Fin 0, b_y = Fin 0, b_vx = Fin 0, b_vy = Fin 0\<rparr>,
           \<lparr>b_mass = Fin 0, b_x = NaN, b_y = NaN, b_vx = NaN, b_vy = NaN\<rparr>],
          [[\<lparr>v_x = NaN, v_y = NaN\<rparr>]]))"
  by (simp add: simulate_def sim_loop.simps sim_step_def integrate_body_def advance_def
      snapshot_def compute_forces_def massless_body_def const_rnd_def minus_jsnum_def Let_def)

text \<open>
  C5, amended: the gravity variant has no check of the masses. For an array of objects
  in which body \<open>i\<close> has mass zero, and a finite \<open>steps\<close>, the call does not fail
  with a \<open>DomainError\<close>: it returns a trajectory, and in every snapshot both
  coordinates of body \<open>i\<close> are not finite (\<open>NaN\<close> or an infinity).
\<close>

theorem zero_mass_gives_non_finite:
  assumes ok: "\<forall>r\<in>set rs. r < length h" and i: "i < length rs"
    and z: "b_mass (h ! (rs ! i)) = Fin 0"
  shows "simulate h (map Some rs) dt (Fin s) jitter rnd \<noteq> Some (Inl DomainError) \<and>
         (\<exists>h' t. simulate h (map Some rs) dt (Fin s) jitter rnd = Some (Inr (h', t)) \<and>
           (\<forall>sn\<in>set t. \<not> is_fin (v_x (sn ! i)) \<and> \<not> is_fin (v_y (sn ! i))))"
proof -
  define state where "state = [length h ..< length h + length rs]"
  define copies where "copies = map (\<lambda>r. \<lparr>b_mass = b_mass (h ! r), b_x = b_x (h ! r),
      b_y = b_y (h ! r), b_vx = b_vx (h ! r), b_vy = b_vy (h ! r)\<rparr>) rs"
  define hk where "hk = (h @ copies, 0::nat)"
  have d: "distinct state"
    by (simp add: state_def)
  have len: "length state = length rs"
    by (simp add: state_def)
  have v: "\<forall>i<length state. state ! i < length (fst hk)"
    by (simp add: state_def hk_def copies_def)
  have i': "i < length state"
    using i len by simp
  have z': "b_mass (fst hk ! (state ! i)) = Fin 0"
    using i z by (simp add: hk_def state_def copies_def nth_append)
  have sim: "simulate h (map Some rs) dt (Fin s) jitter rnd =
      Some (Inr (fst ((sim_step state dt jitter rnd ^^ nat \<lceil>s\<rceil>) hk),
           map (\<lambda>q. snapshot (fst ((sim_step state dt jitter rnd ^^ Suc q) hk)) state)
               [0 ..< nat \<lceil>s\<rceil>]))"
    by (simp add: simulate_finite_steps [OF ok] state_def copies_def hk_def)
  have "\<not> is_fin (v_x (snapshot (fst ((sim_step state dt jitter rnd ^^ Suc q) hk)) state ! i)) \<and>
        \<not> is_fin (v_y (snapshot (fst ((sim_step state dt jitter rnd ^^ Suc q) hk)) state ! i))"
    for q
    using zero_mass_after_step [OF d v i' z', where dt = dt and jitter = jitter and rnd = rnd and q = q] i'
    by (simp add: snapshot_def)
  then show ?thesis
    unfolding sim by auto
qed

theorem zero_mass_gives_non_finite_witness:
  "0 < length massless_body \<and> 0 < length [0::nat] \<and> b_mass (massless_body ! ([0] ! 0)) = Fin 0 \<and>
   (\<exists>h' t. simulate massless_body (map Some [0]) (Fin 1) (Fin 2) (Fin 0) (const_rnd 0) =
             Some (Inr (h', t)) \<and>
           length t = 2 \<and>
           \<not> is_fin (v_x (t ! 0 ! 0)) \<and> \<not> is_fin (v_y (t ! 0 ! 0)) \<and>
           \<not> is_fin (v_x (t ! 1 ! 0)) \<and> \<not> is_fin (v_y (t ! 1 ! 0)))"
proof -
  have a: "\<forall>r\<in>set [0::nat]. r < length massless_body"
    and b: "0 < length [0::nat]" and c: "b_mass (massless_body ! ([0] ! 0)) = Fin 0"
    by (simp_all add: massless_body_def)
  from zero_mass_gives_non_finite [OF a b c, of "Fin 1" 2 "Fin 0" "const_rnd 0"]
  obtain h' t where
    r: "simulate massless_body (map Some [0]) (Fin 1) (Fin 2) (Fin 0) (const_rnd 0) =
          Some (Inr (h', t))"
      "\<forall>sn\<in>set t. \<not> is_fin (v_x (sn ! 0)) \<and> \<not> is_fin (v_y (sn ! 0))"
    by auto
  have l: "length t = 2"
    using r(1) simulate_finite_steps [OF a, where dt = "Fin 1" and s = 2 and jitter = "Fin 0"
        and rnd = "const_rnd 0"]
    by auto
  then have "t ! 0 \<in> set t" and "t ! 1 \<in> set t"
    by simp_all
  with r l show ?thesis
    by (auto simp: massless_body_def)
qed

section \<open>Conservation of momentum\<close>

lemma is_fin_iff: "is_fin a = (\<exists>r. a = Fin r)"
  by (cases a) simp_all

lemma pair_force_finite:
  assumes "finite_body bi" and "finite_body bj"
  shows "finite_vec (pair_force bi bj)"
proof -
  obtain mi xi yi mj xj yj where
    e: "b_mass bi = Fin mi" "b_x bi = Fin xi" "b_y bi = Fin yi"
       "b_mass bj = Fin mj" "b_x bj = Fin xj" "b_y bj = Fin yj"
    using assms unfolding finite_body_def is_fin_iff by blast
  have p: "0 < (xj - xi) * (xj - xi) + (yj - yi) * (yj - yi) + SOFTENING"
    by (rule softened_pos)
  then have q: "\<not> (xj - xi) * (xj - xi) + (yj - yi) * (yj - yi) + SOFTENING < 0"
    and r: "(xj - xi) * (xj - xi) + (yj - yi) * (yj - yi) + SOFTENING \<noteq> 0"
    by simp_all
  have s: "sqrt ((xj - xi) * (xj - xi) + (yj - yi) * (yj - yi) + SOFTENING) \<noteq> 0"
    using p by simp
  show ?thesis
    using q r s
    by (simp add: finite_vec_def pair_force_def grav_distSq_def G_def e minus_jsnum_def Let_def)
qed


lemma add_pair_nth:
  assumes "i < j" and "j < length forces" and "k < length forces"
  shows "add_pair h state i j forces ! k =
     (if k = i then \<lparr>v_x = v_x (forces ! i) + v_x (pair_force (h ! (state ! i)) (h ! (state ! j))),
                       v_y = v_y (forces ! i) + v_y (pair_force (h ! (state ! i)) (h ! (state ! j)))\<rparr>
      else if k = j then \<lparr>v_x = v_x (forces ! j) - v_x (pair_force (h ! (state ! i)) (h ! (state ! j))),
                            v_y = v_y (forces ! j) - v_y (pair_force (h ! (state ! i)) (h ! (state ! j)))\<rparr>
      else forces ! k)"
  using assms by (auto simp: add_pair_def Let_def nth_list_update)

lemma add_pair_length: "length (add_pair h state i j forces) = length forces"
  by (simp add: add_pair_def Let_def)

lemma sum_list_as_sum: "sum_list (map g xs) = (\<Sum>k<length xs. g (xs ! k))"
  by (simp add: sum_list_sum_nth atLeast0LessThan)

lemma add_pair_balanced:
  assumes ij: "i < j" and jn: "j < n" and b: "balanced n forces"
    and f: "finite_vec (pair_force (h ! (state ! i)) (h ! (state ! j)))"
  shows "balanced n (add_pair h state i j forces)"
proof -
  let ?f = "pair_force (h ! (state ! i)) (h ! (state ! j))"
  let ?new = "add_pair h state i j forces"
  have len: "length forces = n" and fin: "\<And>k. k < n \<Longrightarrow> finite_vec (forces ! k)"
    and sx: "(\<Sum>k<n. num_of (v_x (forces ! k))) = 0"
    and sy: "(\<Sum>k<n. num_of (v_y (forces ! k))) = 0"
    using b by (auto simp: balanced_def list_all_length sum_list_as_sum)
  obtain fx fy where fxy: "v_x ?f = Fin fx" "v_y ?f = Fin fy"
    using f unfolding finite_vec_def is_fin_iff by blast
  have nth: "\<And>k. k < n \<Longrightarrow>
      v_x (?new ! k) = Fin (num_of (v_x (forces ! k)) + (if k = i then fx else 0)
                              - (if k = j then fx else 0)) \<and>
      v_y (?new ! k) = Fin (num_of (v_y (forces ! k)) + (if k = i then fy else 0)
                              - (if k = j then fy else 0))"
  proof -
    fix k assume k: "k < n"
    obtain a c where ac: "v_x (forces ! k) = Fin a" "v_y (forces ! k) = Fin c"
      using fin [OF k] unfolding finite_vec_def is_fin_iff by blast
    show "v_x (?new ! k) = Fin (num_of (v_x (forces ! k)) + (if k = i then fx else 0)
                              - (if k = j then fx else 0)) \<and>
      v_y (?new ! k) = Fin (num_of (v_y (forces ! k)) + (if k = i then fy else 0)
                              - (if k = j then fy else 0))"
      using ij jn k len ac fxy
      by (auto simp: add_pair_nth minus_jsnum_def)
  qed
  have in_i: "i < n" using ij jn by simp
  have "(\<Sum>k<n. num_of (v_x (?new ! k))) =
        (\<Sum>k<n. num_of (v_x (forces ! k)) + (if k = i then fx else 0) - (if k = j then fx else 0))"
    by (rule sum.cong) (simp_all add: nth)
  also have "\<dots> = 0"
    using in_i jn by (simp add: sum.distrib sum_subtractf sx)
  finally have nx: "(\<Sum>k<n. num_of (v_x (?new ! k))) = 0" .
  have "(\<Sum>k<n. num_of (v_y (?new ! k))) =
        (\<Sum>k<n. num_of (v_y (forces ! k)) + (if k = i then fy else 0) - (if k = j then fy else 0))"
    by (rule sum.cong) (simp_all add: nth)
  also have "\<dots> = 0"
    using in_i jn by (simp add: sum.distrib sum_subtractf sy)
  finally have ny: "(\<Sum>k<n. num_of (v_y (?new ! k))) = 0" .
  have "\<And>k. k < n \<Longrightarrow> finite_vec (?new ! k)"
    using nth by (simp add: finite_vec_def)
  then show ?thesis
    using nx ny len
    by (simp add: balanced_def list_all_length sum_list_as_sum add_pair_length)
qed

lemma compute_forces_balanced:
  assumes "\<forall>k<length state. finite_body (h ! (state ! k))"
  shows "balanced (length state) (compute_forces h state)"
  unfolding compute_forces_def
proof (rule fold_invariant [where Q = "\<lambda>i. i < length state"])
  show "\<And>i. i \<in> set [0 ..< length state] \<Longrightarrow> i < length state"
    by simp
next
  show "balanced (length state) (map (\<lambda>_. \<lparr>v_x = Fin 0, v_y = Fin 0\<rparr>) state)"
    by (simp add: balanced_def list_all_iff finite_vec_def sum_list_as_sum)
next
  fix i forces
  assume i: "i < length state" and b: "balanced (length state) forces"
  show "balanced (length state)
          (fold (\<lambda>j forces'. add_pair h state i j forces') [i + 1 ..< length state] forces)"
  proof (rule fold_invariant [where Q = "\<lambda>j. i < j \<and> j < length state"])
    show "\<And>j. j \<in> set [i + 1 ..< length state] \<Longrightarrow> i < j \<and> j < length state"
      by simp
  next
    show "balanced (length state) forces"
      by (rule b)
  next
    fix j forces'
    assume j: "i < j \<and> j < length state" and b': "balanced (length state) forces'"
    have "finite_vec (pair_force (h ! (state ! i)) (h ! (state ! j)))"
      using assms i j by (simp add: pair_force_finite)
    then show "balanced (length state) (add_pair h state i j forces')"
      using j b' by (simp add: add_pair_balanced)
  qed
qed


lemma advance_velocity:
  assumes b: "finite_body b" and m: "b_mass b \<noteq> Fin 0" and f: "finite_vec f" and dt: "is_fin dt"
  shows "b_mass (advance f dt jitter r1 r2 b) = b_mass b \<and>
         b_vx (advance f dt jitter r1 r2 b) =
           Fin (num_of (b_vx b) + num_of (v_x f) / num_of (b_mass b) * num_of dt) \<and>
         b_vy (advance f dt jitter r1 r2 b) =
           Fin (num_of (b_vy b) + num_of (v_y f) / num_of (b_mass b) * num_of dt)"
proof -
  obtain ms vx vy fx fy d where
    e: "b_mass b = Fin ms" "b_vx b = Fin vx" "b_vy b = Fin vy" "v_x f = Fin fx" "v_y f = Fin fy"
       "dt = Fin d"
    using b f dt unfolding finite_body_def finite_vec_def is_fin_iff by blast
  have "ms \<noteq> 0"
    using m e by simp
  then show ?thesis
    by (simp add: advance_def Let_def e)
qed

text \<open>
  C10: one step of the gravity variant, the body of the loop of \<open>simulate\<close>,
  preserves the total linear momentum. For distinct, allocated bodies with finite fields
  and masses other than zero, and a finite \<open>dt\<close>, the sum of mass times velocity over
  the bodies is the same after the step as before it, in \<open>x\<close> and in \<open>y\<close>; the
  masses are unchanged and the new velocities are finite. This holds for every
  \<open>jitter\<close> and every random source: the jitter enters the positions only.
\<close>

theorem step_preserves_momentum:
  assumes d: "distinct state"
    and ok: "\<forall>r\<in>set state. r < length h \<and> finite_body (h ! r) \<and> b_mass (h ! r) \<noteq> Fin 0"
    and dt: "is_fin dt"
  shows "momentum_x (fst (sim_step state dt jitter rnd (h, k))) state = momentum_x h state \<and>
         momentum_y (fst (sim_step state dt jitter rnd (h, k))) state = momentum_y h state \<and>
         (\<forall>r\<in>set state.
            b_mass (fst (sim_step state dt jitter rnd (h, k)) ! r) = b_mass (h ! r) \<and>
            is_fin (b_vx (fst (sim_step state dt jitter rnd (h, k)) ! r)) \<and>
            is_fin (b_vy (fst (sim_step state dt jitter rnd (h, k)) ! r)))"
proof -
  let ?n = "length state"
  let ?h' = "fst (sim_step state dt jitter rnd (h, k))"
  let ?fs = "compute_forces h state"
  have v: "\<forall>i<?n. state ! i < length h"
    using ok by simp
  have fb: "\<And>i. i < ?n \<Longrightarrow> finite_body (h ! (state ! i))"
    and nz: "\<And>i. i < ?n \<Longrightarrow> b_mass (h ! (state ! i)) \<noteq> Fin 0"
    using ok by simp_all
  have bal: "balanced ?n ?fs"
    by (rule compute_forces_balanced) (simp add: fb)
  then have ff: "\<And>i. i < ?n \<Longrightarrow> finite_vec (?fs ! i)"
    and sx: "(\<Sum>i<?n. num_of (v_x (?fs ! i))) = 0"
    and sy: "(\<Sum>i<?n. num_of (v_y (?fs ! i))) = 0"
    by (auto simp: balanced_def list_all_length sum_list_as_sum)
  have new: "\<And>i. i < ?n \<Longrightarrow>
      b_mass (?h' ! (state ! i)) = b_mass (h ! (state ! i)) \<and>
      b_vx (?h' ! (state ! i)) =
        Fin (num_of (b_vx (h ! (state ! i))) +
             num_of (v_x (?fs ! i)) / num_of (b_mass (h ! (state ! i))) * num_of dt) \<and>
      b_vy (?h' ! (state ! i)) =
        Fin (num_of (b_vy (h ! (state ! i))) +
             num_of (v_y (?fs ! i)) / num_of (b_mass (h ! (state ! i))) * num_of dt)"
    by (simp only: sim_step_nth [OF d v] advance_velocity [OF fb nz ff dt])
  have mnz: "\<And>i. i < ?n \<Longrightarrow> num_of (b_mass (h ! (state ! i))) \<noteq> 0"
  proof -
    fix i assume i: "i < ?n"
    show "num_of (b_mass (h ! (state ! i))) \<noteq> 0"
      using fb [OF i] nz [OF i] by (cases "b_mass (h ! (state ! i))") (simp_all add: finite_body_def)
  qed
  have "momentum_x ?h' state =
        (\<Sum>i<?n. num_of (b_mass (h ! (state ! i))) * num_of (b_vx (h ! (state ! i))) +
                  num_of (v_x (?fs ! i)) * num_of dt)"
    unfolding momentum_x_def sum_list_as_sum
    by (rule sum.cong) (simp_all add: new mnz distrib_left)
  also have "\<dots> = momentum_x h state + (\<Sum>i<?n. num_of (v_x (?fs ! i))) * num_of dt"
    by (simp add: momentum_x_def sum_list_as_sum sum.distrib sum_distrib_right)
  finally have mx: "momentum_x ?h' state = momentum_x h state"
    by (simp add: sx)
  have "momentum_y ?h' state =
        (\<Sum>i<?n. num_of (b_mass (h ! (state ! i))) * num_of (b_vy (h ! (state ! i))) +
                  num_of (v_y (?fs ! i)) * num_of dt)"
    unfolding momentum_y_def sum_list_as_sum
    by (rule sum.cong) (simp_all add: new mnz distrib_left)
  also have "\<dots> = momentum_y h state + (\<Sum>i<?n. num_of (v_y (?fs ! i))) * num_of dt"
    by (simp add: momentum_y_def sum_list_as_sum sum.distrib sum_distrib_right)
  finally have my: "momentum_y ?h' state = momentum_y h state"
    by (simp add: sy)
  have "\<forall>r\<in>set state. b_mass (?h' ! r) = b_mass (h ! r) \<and>
          is_fin (b_vx (?h' ! r)) \<and> is_fin (b_vy (?h' ! r))"
    using new by (auto simp: in_set_conv_nth)
  with mx my show ?thesis
    by simp
qed

theorem step_preserves_momentum_witness:
  "distinct [0::nat, 1] \<and>
   0 < length two_bodies \<and> finite_body (two_bodies ! 0) \<and> b_mass (two_bodies ! 0) \<noteq> Fin 0 \<and>
   1 < length two_bodies \<and> finite_body (two_bodies ! 1) \<and> b_mass (two_bodies ! 1) \<noteq> Fin 0 \<and>
   is_fin (Fin 1) \<and>
   momentum_x (fst (sim_step [0, 1] (Fin 1) (Fin 1) (const_rnd 0) (two_bodies, 0))) [0, 1] = 0 \<and>
   momentum_y (fst (sim_step [0, 1] (Fin 1) (Fin 1) (const_rnd 0) (two_bodies, 0))) [0, 1] = 0"
proof -
  have hyp: "\<forall>r\<in>set [0, 1]. r < length two_bodies \<and> finite_body (two_bodies ! r) \<and>
        b_mass (two_bodies ! r) \<noteq> Fin 0"
    by (simp add: two_bodies_def finite_body_def)
  have start: "momentum_x two_bodies [0, 1] = 0 \<and> momentum_y two_bodies [0, 1] = 0"
    by (simp add: momentum_x_def momentum_y_def two_bodies_def)
  show ?thesis
    using step_preserves_momentum [of "[0, 1]" two_bodies "Fin 1" "Fin 1" "const_rnd 0" 0] hyp start
    by simp
qed

section \<open>Zero jitter: the trajectory depends on the bodies only\<close>

lemma add_pair_values:
  assumes "map ((!) h) state = map ((!) h2) state2" and "i < length state" and "j < length state"
  shows "add_pair h state i j forces = add_pair h2 state2 i j forces"
proof -
  have len: "length state2 = length state"
    using assms(1) by (metis length_map)
  have "h ! (state ! i) = h2 ! (state2 ! i)"
    using assms(1,2) len by (metis nth_map)
  moreover have "h ! (state ! j) = h2 ! (state2 ! j)"
    using assms(1,3) len by (metis nth_map)
  ultimately show ?thesis
    by (simp add: add_pair_def)
qed

lemma compute_forces_values:
  assumes "map ((!) h) state = map ((!) h2) state2"
  shows "compute_forces h state = compute_forces h2 state2"
proof -
  have len: "length state2 = length state"
    using assms by (metis length_map)
  have inner: "fold (\<lambda>j forces'. add_pair h state i j forces') [i + 1 ..< length state] forces =
               fold (\<lambda>j forces'. add_pair h2 state2 i j forces') [i + 1 ..< length state] forces"
    if "i < length state" for i forces
    by (rule fold_cong) (simp_all add: add_pair_values [OF assms that])
  have "fold (\<lambda>i forces. fold (\<lambda>j forces'. add_pair h state i j forces')
                            [i + 1 ..< length state] forces)
          [0 ..< length state] init =
        fold (\<lambda>i forces. fold (\<lambda>j forces'. add_pair h2 state2 i j forces')
                            [i + 1 ..< length state] forces)
          [0 ..< length state] init" for init
    by (rule fold_cong) (use inner in \<open>auto intro!: ext\<close>)
  then show ?thesis
    by (simp add: compute_forces_def len map_replicate_const)
qed

lemma sim_step_values:
  assumes d: "distinct state" and v: "\<forall>i<length state. state ! i < length h"
    and d2: "distinct state2" and v2: "\<forall>i<length state2. state2 ! i < length h2"
    and eq: "map ((!) h) state = map ((!) h2) state2"
  shows "map ((!) (fst (sim_step state dt (Fin 0) rnd (h, k)))) state =
         map ((!) (fst (sim_step state2 dt (Fin 0) rnd' (h2, k2)))) state2"
proof (rule nth_equalityI)
  have len: "length state2 = length state"
    using eq by (metis length_map)
  show "length (map ((!) (fst (sim_step state dt (Fin 0) rnd (h, k)))) state) =
        length (map ((!) (fst (sim_step state2 dt (Fin 0) rnd' (h2, k2)))) state2)"
    by (simp add: len)
  fix i
  assume "i < length (map ((!) (fst (sim_step state dt (Fin 0) rnd (h, k)))) state)"
  then have i: "i < length state" and i2: "i < length state2"
    by (simp_all add: len)
  have same: "h ! (state ! i) = h2 ! (state2 ! i)"
    using eq i i2 by (metis nth_map)
  show "map ((!) (fst (sim_step state dt (Fin 0) rnd (h, k)))) state ! i =
        map ((!) (fst (sim_step state2 dt (Fin 0) rnd' (h2, k2)))) state2 ! i"
    using i i2
    by (simp add: sim_step_nth [OF d v i] sim_step_nth [OF d2 v2 i2] same
        compute_forces_values [OF eq]
        advance_zero_jitter [of _ _ "rnd (k + 2 * i)" "rnd (Suc (k + 2 * i))" _
                                    "rnd' (k2 + 2 * i)" "rnd' (Suc (k2 + 2 * i))"])
qed

lemma funpow_sim_step_values:
  assumes d: "distinct state" and v: "\<forall>i<length state. state ! i < length (fst hk)"
    and d2: "distinct state2" and v2: "\<forall>i<length state2. state2 ! i < length (fst hk2)"
    and eq: "map ((!) (fst hk)) state = map ((!) (fst hk2)) state2"
  shows "map ((!) (fst ((sim_step state dt (Fin 0) rnd ^^ m) hk))) state =
         map ((!) (fst ((sim_step state2 dt (Fin 0) rnd' ^^ m) hk2))) state2"
proof (induction m)
  case 0
  show ?case using eq by simp
next
  case (Suc m)
  obtain a ka where a: "(sim_step state dt (Fin 0) rnd ^^ m) hk = (a, ka)"
    by (cases "(sim_step state dt (Fin 0) rnd ^^ m) hk")
  obtain b kb where b: "(sim_step state2 dt (Fin 0) rnd' ^^ m) hk2 = (b, kb)"
    by (cases "(sim_step state2 dt (Fin 0) rnd' ^^ m) hk2")
  have "length a = length (fst hk)"
    using funpow_sim_step_length [where state = state and dt = dt and jitter = "Fin 0"
        and rnd = rnd and m = m and hk = hk] a by simp
  then have va: "\<forall>i<length state. state ! i < length a"
    using v by simp
  have "length b = length (fst hk2)"
    using funpow_sim_step_length [where state = state2 and dt = dt and jitter = "Fin 0"
        and rnd = rnd' and m = m and hk = hk2] b by simp
  then have vb: "\<forall>i<length state2. state2 ! i < length b"
    using v2 by simp
  have "map ((!) a) state = map ((!) b) state2"
    using Suc.IH a b by simp
  then show ?case
    using sim_step_values [OF d va d2 vb, where dt = dt and rnd = rnd and k = ka
        and rnd' = rnd' and ?k2.0 = kb] a b by simp
qed

lemma snapshot_values: "snapshot h state = map (\<lambda>b. \<lparr>v_x = b_x b, v_y = b_y b\<rparr>) (map ((!) h) state)"
  by (simp add: snapshot_def)

text \<open>
  C8: with \<open>jitter = 0\<close> the trajectory is a function of the fields of the bodies,
  \<open>dt\<close> and \<open>steps\<close> alone. Two calls whose arrays hold objects with the same
  fields, in the same order, have the same outcome, the same trajectory when they
  return, whatever the store each call runs in and whatever the two sources of random
  numbers return. This holds for every \<open>dt\<close> and \<open>steps\<close> and for non-finite
  fields.
\<close>

theorem zero_jitter_deterministic:
  assumes ok: "\<forall>r\<in>set rs. r < length h" and ok2: "\<forall>r\<in>set rs2. r < length h2"
    and same: "map ((!) h) rs = map ((!) h2) rs2"
  shows "map_option (map_sum id snd) (simulate h (map Some rs) dt steps (Fin 0) rnd) =
         map_option (map_sum id snd) (simulate h2 (map Some rs2) dt steps (Fin 0) rnd')"
proof (cases steps)
  case (Fin s)
  let ?copy = "\<lambda>b. \<lparr>b_mass = b_mass b, b_x = b_x b, b_y = b_y b, b_vx = b_vx b, b_vy = b_vy b\<rparr>"
  define state where "state = [length h ..< length h + length rs]"
  define state2 where "state2 = [length h2 ..< length h2 + length rs2]"
  define hk where "hk = (h @ map ?copy (map ((!) h) rs), 0::nat)"
  define hk2 where "hk2 = (h2 @ map ?copy (map ((!) h2) rs2), 0::nat)"
  have d: "distinct state" and d2: "distinct state2"
    by (simp_all add: state_def state2_def)
  have v: "\<forall>i<length state. state ! i < length (fst hk)"
    and v2: "\<forall>i<length state2. state2 ! i < length (fst hk2)"
    by (simp_all add: state_def state2_def hk_def hk2_def)
  have "map ((!) (fst hk)) state = map ?copy (map ((!) h) rs)"
    by (rule nth_equalityI) (simp_all add: state_def hk_def nth_append)
  moreover have "map ((!) (fst hk2)) state2 = map ?copy (map ((!) h2) rs2)"
    by (rule nth_equalityI) (simp_all add: state2_def hk2_def nth_append)
  ultimately have eq: "map ((!) (fst hk)) state = map ((!) (fst hk2)) state2"
    using same by simp
  have snaps: "snapshot (fst ((sim_step state dt (Fin 0) rnd ^^ m) hk)) state =
               snapshot (fst ((sim_step state2 dt (Fin 0) rnd' ^^ m) hk2)) state2" for m
    unfolding snapshot_values
    using funpow_sim_step_values [OF d v d2 v2 eq, where dt = dt and rnd = rnd and m = m
        and rnd' = rnd'] by simp
  have "map_option (map_sum id snd) (simulate h (map Some rs) dt (Fin s) (Fin 0) rnd) =
        Some (Inr (map (\<lambda>q. snapshot (fst ((sim_step state dt (Fin 0) rnd ^^ (q + 1)) hk)) state)
               [0 ..< nat \<lceil>s\<rceil>]))"
    by (simp add: simulate_finite_steps [OF ok] state_def hk_def o_def)
  moreover have "map_option (map_sum id snd) (simulate h2 (map Some rs2) dt (Fin s) (Fin 0) rnd') =
        Some (Inr (map (\<lambda>q. snapshot (fst ((sim_step state2 dt (Fin 0) rnd' ^^ (q + 1)) hk2)) state2)
               [0 ..< nat \<lceil>s\<rceil>]))"
    by (simp add: simulate_finite_steps [OF ok2] state2_def hk2_def o_def)
  ultimately show ?thesis
    unfolding Fin by (simp only: snaps)
next
  case PInf
  show ?thesis
    unfolding PInf
    by (simp add: simulate_objects [OF ok] simulate_objects [OF ok2] sim_loop_infinity)
next
  case NInf
  show ?thesis
    unfolding NInf
    by (simp add: simulate_objects [OF ok] simulate_objects [OF ok2] sim_loop_no_iteration)
next
  case NaN
  show ?thesis
    unfolding NaN
    by (simp add: simulate_objects [OF ok] simulate_objects [OF ok2] sim_loop_no_iteration)
qed

theorem zero_jitter_deterministic_witness:
  "0 < length two_bodies \<and> 1 < length two_bodies \<and>
   1 < length (moving_body @ two_bodies) \<and> 2 < length (moving_body @ two_bodies) \<and>
   map ((!) two_bodies) [0, 1] = map ((!) (moving_body @ two_bodies)) [1, 2] \<and>
   map_option (map_sum id snd)
     (simulate two_bodies (map Some [0, 1]) (Fin 1) (Fin 3) (Fin 0) (const_rnd 0)) =
   map_option (map_sum id snd)
     (simulate (moving_body @ two_bodies) (map Some [1, 2]) (Fin 1) (Fin 3) (Fin 0)
        (const_rnd (1 / 2)))"
proof -
  have a: "\<forall>r\<in>set [0, 1]. r < length two_bodies"
    and b: "\<forall>r\<in>set [1, 2]. r < length (moving_body @ two_bodies)"
    and same: "map ((!) two_bodies) [0, 1] = map ((!) (moving_body @ two_bodies)) [1, 2]"
    by (simp_all add: two_bodies_def moving_body_def)
  from zero_jitter_deterministic [OF a b same, of "Fin 1" "Fin 3" "const_rnd 0" "const_rnd (1 / 2)"]
    a b same
  show ?thesis
    by simp
qed

end
